theory Spec2Isabelle
  imports Main "HOL-Library.Word"
begin

section \<open>The upload-and-render controller of static/script.js\<close>

text \<open>
  The script wires one asynchronous submit handler to the upload form and defines the
  pure template function \<open>renderRecipe\<close>. The handler reads the selected file, updates
  five page elements, issues one \<open>fetch\<close> and renders the parsed JSON answer.

  The embedding follows the script statement by statement:
  \<^item> the page elements the script touches are the fields of the record \<open>world\<close>,
    together with the log of the requests issued so far;
  \<^item> the parsed answer is a dynamically typed JavaScript value (\<open>jsval\<close>), since the
    script validates nothing and its behaviour on an ill-shaped answer is part of what
    is verified;
  \<^item> a thrown exception is a value: a block of statements returns the world it reached
    and, when it threw, the error;
  \<^item> the two \<open>await\<close>s split the handler into the part that runs up to the \<open>fetch\<close>
    (\<open>on_submit\<close>) and the part that runs once the answer has settled
    (\<open>on_settled\<close>).
\<close>

subsection \<open>JavaScript values\<close>

text \<open>
  The values \<open>JSON.parse\<close> can produce, and \<open>undefined\<close> (the result of reading a
  missing property). A Number is kept abstract (type variable \<open>'n\<close>): double precision
  arithmetic is not modelled. The script can observe a Number in two ways only, through
  its conversion to a string inside a template literal and through its truthiness in
  \<open>if (x.length)\<close>; the runtime's two conversions are the fields of \<open>number_ops\<close>.

  A string is a \<open>char list\<close>; the script only tests strings for emptiness and
  concatenates them, so the encoding of a character is immaterial.

  An object is the association list of its own properties; \<open>map_of\<close> reads one.
\<close>

datatype 'n jsval =
    VUndef
  | VNull
  | VBool bool
  | VNum 'n
  | VStr string
  | VArr "'n jsval list"
  | VObj "(string \<times> 'n jsval) list"

record 'n number_ops =
  number_to_string :: "'n \<Rightarrow> string"
  number_to_boolean :: "'n \<Rightarrow> bool"

datatype js_error = TypeError | SyntaxError | NetworkError

text \<open>ToBoolean.\<close>

fun to_boolean :: "'n number_ops \<Rightarrow> 'n jsval \<Rightarrow> bool" where
  "to_boolean ops VUndef = False"
| "to_boolean ops VNull = False"
| "to_boolean ops (VBool b) = b"
| "to_boolean ops (VNum n) = number_to_boolean ops n"
| "to_boolean ops (VStr s) = (s \<noteq> [])"
| "to_boolean ops (VArr xs) = True"
| "to_boolean ops (VObj ps) = True"

text \<open>
  ToString, as a template literal \<open>${v}\<close> applies it. A plain object converts through
  the inherited \<open>toString\<close> to \<open>[object Object]\<close>; when it has an own property
  \<open>toString\<close> (a parsed value, never callable) the conversion finds no callable method
  yielding a primitive and throws a TypeError. An array converts through \<open>join\<close> with
  a comma, where \<open>undefined\<close> and \<open>null\<close> elements give the empty string.
\<close>

fun to_string :: "'n number_ops \<Rightarrow> 'n jsval \<Rightarrow> js_error + string"
  and join_comma :: "'n number_ops \<Rightarrow> 'n jsval list \<Rightarrow> js_error + string"
  and element_string :: "'n number_ops \<Rightarrow> 'n jsval \<Rightarrow> js_error + string"
where
  "to_string ops VUndef = Inr ''undefined''"
| "to_string ops VNull = Inr ''null''"
| "to_string ops (VBool b) = Inr (if b then ''true'' else ''false'')"
| "to_string ops (VNum n) = Inr (number_to_string ops n)"
| "to_string ops (VStr s) = Inr s"
| "to_string ops (VArr xs) = join_comma ops xs"
| "to_string ops (VObj ps) =
     (if ''toString'' \<in> set (map fst ps) then Inl TypeError else Inr ''[object Object]'')"
| "join_comma ops [] = Inr []"
| "join_comma ops [x] = element_string ops x"
| "join_comma ops (x # y # ys) =
     (case element_string ops x of
        Inl e \<Rightarrow> Inl e
      | Inr s \<Rightarrow> (case join_comma ops (y # ys) of
                   Inl e \<Rightarrow> Inl e
                 | Inr t \<Rightarrow> Inr (s @ '','' @ t)))"
| "element_string ops VUndef = Inr []"
| "element_string ops VNull = Inr []"
| "element_string ops (VBool b) = to_string ops (VBool b)"
| "element_string ops (VNum n) = to_string ops (VNum n)"
| "element_string ops (VStr s) = to_string ops (VStr s)"
| "element_string ops (VArr xs) = to_string ops (VArr xs)"
| "element_string ops (VObj ps) = to_string ops (VObj ps)"

text \<open>
  Reading a property \<open>v.k\<close>, for the names the script reads this way: \<open>ingredients\<close>,
  \<open>recipes\<close>, \<open>title\<close>, \<open>short_description\<close>, \<open>ingredients_used\<close>, \<open>steps\<close>.
  No prototype defines any of them, so only an object's own property can give a value;
  reading from \<open>undefined\<close> or \<open>null\<close> throws.
\<close>

fun get_member :: "'n jsval \<Rightarrow> string \<Rightarrow> js_error + 'n jsval" where
  "get_member VUndef k = Inl TypeError"
| "get_member VNull k = Inl TypeError"
| "get_member (VObj ps) k = Inr (case map_of ps k of None \<Rightarrow> VUndef | Some v \<Rightarrow> v)"
| "get_member v k = Inr VUndef"

text \<open>
  The condition \<open>if (v.length)\<close>: whether \<open>v.length\<close> is truthy. A string and an array
  have a length, truthy unless zero; an object has the own property or none; a boolean
  and a number have none (\<open>undefined\<close>, falsy); \<open>undefined\<close> and \<open>null\<close> throw.
\<close>

fun length_truthy :: "'n number_ops \<Rightarrow> 'n jsval \<Rightarrow> js_error + bool" where
  "length_truthy ops VUndef = Inl TypeError"
| "length_truthy ops VNull = Inl TypeError"
| "length_truthy ops (VBool b) = Inr False"
| "length_truthy ops (VNum n) = Inr False"
| "length_truthy ops (VStr s) = Inr (s \<noteq> [])"
| "length_truthy ops (VArr xs) = Inr (xs \<noteq> [])"
| "length_truthy ops (VObj ps) =
     Inr (case map_of ps ''length'' of None \<Rightarrow> False | Some l \<Rightarrow> to_boolean ops l)"

text \<open>
  \<open>v.map(f)\<close>: only an array has a callable \<open>map\<close>; on any other value the call throws
  a TypeError. The callback runs on the elements in order and the first exception it
  throws ends the call.
\<close>

fun map_throwing :: "('a \<Rightarrow> js_error + 'b) \<Rightarrow> 'a list \<Rightarrow> js_error + 'b list" where
  "map_throwing f [] = Inr []"
| "map_throwing f (x # xs) =
     (case f x of
        Inl e \<Rightarrow> Inl e
      | Inr y \<Rightarrow> (case map_throwing f xs of Inl e \<Rightarrow> Inl e | Inr ys \<Rightarrow> Inr (y # ys)))"

fun call_map :: "'n jsval \<Rightarrow> ('n jsval \<Rightarrow> js_error + 'b) \<Rightarrow> js_error + 'b list" where
  "call_map (VArr xs) f = map_throwing f xs"
| "call_map v f = Inl TypeError"

text \<open>\<open>strs.join("")\<close> on an array of strings.\<close>

definition join_empty :: "string list \<Rightarrow> string" where
  "join_empty strs = concat strs"

subsection \<open>The templates\<close>

text \<open>The arrow functions \<open>i => `<span class="pill">${i}</span>`\<close> and
  \<open>i => `<li>${i}</li>`\<close>.\<close>

definition pill :: "'n number_ops \<Rightarrow> 'n jsval \<Rightarrow> js_error + string" where
  \<open>pill ops i =
     (case to_string ops i of
        Inl e \<Rightarrow> Inl e
      | Inr s \<Rightarrow> Inr (''<span class="pill">'' @ s @ ''</span>''))\<close>

definition list_item :: "'n number_ops \<Rightarrow> 'n jsval \<Rightarrow> js_error + string" where
  "list_item ops i =
     (case to_string ops i of
        Inl e \<Rightarrow> Inl e
      | Inr s \<Rightarrow> Inr (''<li>'' @ s @ ''</li>''))"

text \<open>
  \<open>renderRecipe\<close>: the template literal, its four substitutions evaluated in order.
  The literal starts with a line break and ends with a line break and two blanks.
\<close>

definition member_string :: "'n number_ops \<Rightarrow> 'n jsval \<Rightarrow> string \<Rightarrow> js_error + string" where
  "member_string ops v k =
     (case get_member v k of Inl e \<Rightarrow> Inl e | Inr x \<Rightarrow> to_string ops x)"

definition member_items :: "'n number_ops \<Rightarrow> 'n jsval \<Rightarrow> string \<Rightarrow> js_error + string" where
  "member_items ops v k =
     (case get_member v k of
        Inl e \<Rightarrow> Inl e
      | Inr x \<Rightarrow> (case call_map x (list_item ops) of
                   Inl e \<Rightarrow> Inl e
                 | Inr strs \<Rightarrow> Inr (join_empty strs)))"

definition card_text :: "string \<Rightarrow> string \<Rightarrow> string \<Rightarrow> string \<Rightarrow> string" where
  \<open>card_text t d us ss =
     ''\<newline>    <div class="recipe-card">\<newline>      <h3>'' @ t @
     ''</h3>\<newline>      <p>'' @ d @
     ''</p>\<newline>      <h4>Ingredients used</h4>\<newline>      <ul>\<newline>        '' @ us @
     ''\<newline>      </ul>\<newline>      <h4>Steps</h4>\<newline>      <ol>\<newline>        '' @ ss @
     ''\<newline>      </ol>\<newline>    </div>\<newline>  ''\<close>

definition renderRecipe :: "'n number_ops \<Rightarrow> 'n jsval \<Rightarrow> js_error + string" where
  "renderRecipe ops recipe =
     (case member_string ops recipe ''title'' of
        Inl e \<Rightarrow> Inl e
      | Inr t \<Rightarrow>
     (case member_string ops recipe ''short_description'' of
        Inl e \<Rightarrow> Inl e
      | Inr d \<Rightarrow>
     (case member_items ops recipe ''ingredients_used'' of
        Inl e \<Rightarrow> Inl e
      | Inr us \<Rightarrow>
     (case member_items ops recipe ''steps'' of
        Inl e \<Rightarrow> Inl e
      | Inr ss \<Rightarrow> Inr (card_text t d us ss)))))"

subsection \<open>The page and the network\<close>

text \<open>
  A selected file, as the file input reports it, and the \<open>FormData\<close> the handler
  builds: the entries in the order they were appended. A request is what \<open>fetch\<close> was
  called with: the address and the \<open>method\<close> and \<open>body\<close> of its options (the script
  sets no header). A \<open>FormData\<close> body is sent as multipart form data, one part per
  entry.
\<close>

record file_object =
  file_name :: string
  file_type :: string
  file_bytes :: "8 word list"

type_synonym form_data = "(string \<times> file_object) list"

definition form_data_append :: "form_data \<Rightarrow> string \<Rightarrow> file_object \<Rightarrow> form_data" where
  "form_data_append fd name value = fd @ [(name, value)]"

record request =
  url :: string
  http_method :: string
  body :: form_data

text \<open>
  The elements the script looks up by identifier, each by the one attribute the script
  uses, the flag of the submit event being handled, and the requests issued so far.
  The elements are distinct and the two sections are not inside a list container, so
  writing one field leaves the others alone. \<open>innerHTML\<close> is the markup text last
  assigned; how the browser parses that text into elements is outside the script.
\<close>

record world =
  image_input_files :: "file_object list"
  status_text :: string
  ingredients_section_classes :: "string list"
  ingredients_list_html :: string
  recipes_section_classes :: "string list"
  recipes_list_html :: string
  default_prevented :: bool
  requests :: "request list"

text \<open>\<open>classList.add\<close> and \<open>classList.remove\<close> on the ordered token set.\<close>

definition class_add :: "string \<Rightarrow> string list \<Rightarrow> string list" where
  "class_add tok cs = (if tok \<in> set cs then cs else cs @ [tok])"

definition class_remove :: "string \<Rightarrow> string list \<Rightarrow> string list" where
  "class_remove tok cs = removeAll tok cs"

text \<open>A section is hidden while its class list holds the token \<open>hidden\<close>.\<close>

definition is_hidden :: "string list \<Rightarrow> bool" where
  "is_hidden cs = (''hidden'' \<in> set cs)"

text \<open>\<open>fetch(url, {method, body})\<close> issues the request.\<close>

definition fetch :: "string \<Rightarrow> string \<Rightarrow> form_data \<Rightarrow> world \<Rightarrow> world" where
  "fetch u m b w = w\<lparr>requests := requests w @ [\<lparr>url = u, http_method = m, body = b\<rparr>]\<rparr>"

text \<open>
  A promise settles: it is fulfilled with a value or rejected with an error. A response
  is modelled by its status code, which the script never reads, and by what
  \<open>res.json()\<close> settles to: the parsed body, or a rejection when the body is not JSON.
\<close>

datatype 'a settled = Fulfilled 'a | Rejected js_error

record 'n response =
  status_code :: nat
  json :: "'n jsval settled"

text \<open>
  How a run of the handler stands: it returned, it threw (nothing in the handler
  catches, so the handler's promise is rejected with the error), or it is suspended at
  the \<open>await\<close> of the request.
\<close>

datatype progress = Returned | Threw js_error | Awaiting

subsection \<open>The submit handler\<close>

text \<open>The text \<open>Analyzing\<close> followed by U+2026 (horizontal ellipsis), in UTF-8.\<close>

definition analyzing :: string where
  "analyzing = ''Analyzing'' @ [CHR 0xE2, CHR 0x80, CHR 0xA6]"

text \<open>
  Lines 10 to 25: the handler up to the point where it suspends. \<open>imageInput.files[0]\<close>
  is \<open>undefined\<close> when no file is selected.
\<close>

definition on_submit :: "world \<Rightarrow> world \<times> progress" where
  "on_submit w =
     (let w1 = w\<lparr>default_prevented := True\<rparr> in
      case image_input_files w1 of
        [] \<Rightarrow> (w1, Returned)
      | file # others \<Rightarrow>
          let formData = form_data_append [] ''image'' file;
              w2 = w1\<lparr>status_text := analyzing\<rparr>;
              w3 = w2\<lparr>ingredients_section_classes :=
                        class_add ''hidden'' (ingredients_section_classes w2)\<rparr>;
              w4 = w3\<lparr>recipes_section_classes :=
                        class_add ''hidden'' (recipes_section_classes w3)\<rparr>
          in (fetch ''/analyze'' ''POST'' formData w4, Awaiting))"

text \<open>
  Lines 22 and 27: \<open>await fetch(...)\<close> and then \<open>await res.json()\<close>. Either promise
  may reject; the value the handler continues with is the parsed body.
\<close>

definition await_json :: "'n response settled \<Rightarrow> 'n jsval settled" where
  "await_json r = (case r of Rejected e \<Rightarrow> Rejected e | Fulfilled res \<Rightarrow> json res)"

text \<open>Lines 31 to 36: the ingredients block.\<close>

definition render_ingredients ::
  "'n number_ops \<Rightarrow> 'n jsval \<Rightarrow> world \<Rightarrow> world \<times> js_error option" where
  "render_ingredients ops ingredients w =
     (case length_truthy ops ingredients of
        Inl e \<Rightarrow> (w, Some e)
      | Inr False \<Rightarrow> (w, None)
      | Inr True \<Rightarrow>
          let w1 = w\<lparr>ingredients_section_classes :=
                       class_remove ''hidden'' (ingredients_section_classes w)\<rparr>
          in case call_map ingredients (pill ops) of
               Inl e \<Rightarrow> (w1, Some e)
             | Inr strs \<Rightarrow> (w1\<lparr>ingredients_list_html := join_empty strs\<rparr>, None))"

text \<open>Lines 39 to 42: the recipes block.\<close>

definition render_recipes ::
  "'n number_ops \<Rightarrow> 'n jsval \<Rightarrow> world \<Rightarrow> world \<times> js_error option" where
  "render_recipes ops recipes w =
     (case length_truthy ops recipes of
        Inl e \<Rightarrow> (w, Some e)
      | Inr False \<Rightarrow> (w, None)
      | Inr True \<Rightarrow>
          let w1 = w\<lparr>recipes_section_classes :=
                       class_remove ''hidden'' (recipes_section_classes w)\<rparr>
          in case call_map recipes (renderRecipe ops) of
               Inl e \<Rightarrow> (w1, Some e)
             | Inr strs \<Rightarrow> (w1\<lparr>recipes_list_html := join_empty strs\<rparr>, None))"

text \<open>
  Lines 28 to 44: destructuring the parsed value (which throws on \<open>undefined\<close> and
  \<open>null\<close>), the two blocks, and clearing the status.
\<close>

definition render :: "'n number_ops \<Rightarrow> 'n jsval \<Rightarrow> world \<Rightarrow> world \<times> progress" where
  "render ops data w =
     (case get_member data ''ingredients'' of
        Inl e \<Rightarrow> (w, Threw e)
      | Inr ingredients \<Rightarrow>
     (case get_member data ''recipes'' of
        Inl e \<Rightarrow> (w, Threw e)
      | Inr recipes \<Rightarrow>
     (case render_ingredients ops ingredients w of
        (w1, Some e) \<Rightarrow> (w1, Threw e)
      | (w1, None) \<Rightarrow>
     (case render_recipes ops recipes w1 of
        (w2, Some e) \<Rightarrow> (w2, Threw e)
      | (w2, None) \<Rightarrow> (w2\<lparr>status_text := []\<rparr>, Returned)))))"

text \<open>The handler from the moment the answer has settled.\<close>

definition on_settled ::
  "'n number_ops \<Rightarrow> 'n jsval settled \<Rightarrow> world \<Rightarrow> world \<times> progress" where
  "on_settled ops s w =
     (case s of Rejected e \<Rightarrow> (w, Threw e) | Fulfilled data \<Rightarrow> render ops data w)"

text \<open>
  One submission cycle with nothing else running in between: the handler up to the
  request, then the answer of the network.
\<close>

definition submit_cycle ::
  "'n number_ops \<Rightarrow> 'n response settled \<Rightarrow> world \<Rightarrow> world \<times> progress" where
  "submit_cycle ops net w =
     (case on_submit w of
        (w1, Awaiting) \<Rightarrow> on_settled ops (await_json net) w1
      | (w1, p) \<Rightarrow> (w1, p))"

subsection \<open>The response contract\<close>

text \<open>
  The shape the analyze endpoint promises and the script relies on: \<open>ingredients\<close> is
  an array of strings, \<open>recipes\<close> an array of objects with the string properties
  \<open>title\<close> and \<open>short_description\<close> and the string array properties
  \<open>ingredients_used\<close> and \<open>steps\<close>. The record is the typed reading of one such
  object; \<open>recipe_shaped v r\<close> says that the value \<open>v\<close> has the four properties with
  the contents of \<open>r\<close> (it may have others, in any order).
\<close>

record recipe =
  title :: string
  short_description :: string
  ingredients_used :: "string list"
  steps :: "string list"

definition recipe_shaped :: "'n jsval \<Rightarrow> recipe \<Rightarrow> bool" where
  "recipe_shaped v r =
     (get_member v ''title'' = Inr (VStr (title r)) \<and>
      get_member v ''short_description'' = Inr (VStr (short_description r)) \<and>
      get_member v ''ingredients_used'' = Inr (VArr (map VStr (ingredients_used r))) \<and>
      get_member v ''steps'' = Inr (VArr (map VStr (steps r))))"

text \<open>
  The card of a recipe record, written out: a heading with the title, a paragraph with
  the description, the labelled unordered list of the ingredients used and the labelled
  ordered list of the steps, one list item per string.
\<close>

definition recipe_card :: "recipe \<Rightarrow> string" where
  \<open>recipe_card r =
     ''\<newline>    <div class="recipe-card">\<newline>      <h3>'' @ title r @ ''</h3>'' @
     ''\<newline>      <p>'' @ short_description r @ ''</p>'' @
     ''\<newline>      <h4>Ingredients used</h4>'' @
     ''\<newline>      <ul>\<newline>        '' @
     concat (map (\<lambda>i. ''<li>'' @ i @ ''</li>'') (ingredients_used r)) @
     ''\<newline>      </ul>'' @
     ''\<newline>      <h4>Steps</h4>'' @
     ''\<newline>      <ol>\<newline>        '' @
     concat (map (\<lambda>s. ''<li>'' @ s @ ''</li>'') (steps r)) @
     ''\<newline>      </ol>\<newline>    </div>\<newline>  ''\<close>

subsection \<open>Sample inputs\<close>

text \<open>
  A page as it is before the first submission with a photo selected, a runtime whose
  numbers are naturals, and the answers of the scenarios.
\<close>

definition photo :: file_object where
  "photo = \<lparr>file_name = ''fridge.jpg'', file_type = ''image/jpeg'',
            file_bytes = [0xFF, 0xD8, 0xFF]\<rparr>"

definition fresh_page :: world where
  "fresh_page =
     \<lparr>image_input_files = [photo], status_text = [],
      ingredients_section_classes = [''card'', ''hidden''], ingredients_list_html = [],
      recipes_section_classes = [''card'', ''hidden''], recipes_list_html = [],
      default_prevented = False, requests = []\<rparr>"

definition empty_page :: world where
  "empty_page = fresh_page\<lparr>image_input_files := []\<rparr>"

definition nat_ops :: "nat number_ops" where
  "nat_ops = \<lparr>number_to_string = (\<lambda>n. replicate n (CHR ''I'')),
              number_to_boolean = (\<lambda>n. n \<noteq> 0)\<rparr>"

definition pancakes :: recipe where
  "pancakes = \<lparr>title = ''Pancakes'', short_description = ''Fluffy.'',
               ingredients_used = [''egg'', ''flour''], steps = [''Mix'', ''Cook'']\<rparr>"

definition pancakes_value :: "nat jsval" where
  "pancakes_value =
     VObj [(''title'', VStr ''Pancakes''), (''short_description'', VStr ''Fluffy.''),
           (''ingredients_used'', VArr [VStr ''egg'', VStr ''flour'']),
           (''steps'', VArr [VStr ''Mix'', VStr ''Cook''])]"

definition answer :: "nat jsval \<Rightarrow> nat response settled" where
  "answer data = Fulfilled \<lparr>status_code = 200, json = Fulfilled data\<rparr>"

definition eggs_answer :: "nat jsval" where
  "eggs_answer = VObj [(''ingredients'', VArr [VStr ''egg'', VStr ''flour'']), (''recipes'', VArr [])]"

definition pancakes_answer :: "nat jsval" where
  "pancakes_answer = VObj [(''ingredients'', VArr []), (''recipes'', VArr [pancakes_value])]"

definition markup_answer :: "nat jsval" where
  "markup_answer =
     VObj [(''ingredients'', VArr [VStr ''<b>egg</b>'']), (''recipes'', VArr [])]"

definition no_recipes_answer :: "nat jsval" where
  "no_recipes_answer = VObj [(''ingredients'', VArr [VStr ''egg''])]"

definition pancakes_value_reordered :: "nat jsval" where
  "pancakes_value_reordered =
     VObj [(''steps'', VArr [VStr ''Mix'', VStr ''Cook'']), (''minutes'', VNum 20),
           (''ingredients_used'', VArr [VStr ''egg'', VStr ''flour'']),
           (''short_description'', VStr ''Fluffy.''), (''title'', VStr ''Pancakes'')]"

definition used_page :: world where
  \<open>used_page =
     \<lparr>image_input_files = [photo], status_text = [],
      ingredients_section_classes = [''card''],
      ingredients_list_html = ''<span class="pill">milk</span>'',
      recipes_section_classes = [''card''],
      recipes_list_html = recipe_card pancakes,
      default_prevented = False, requests = []\<rparr>\<close>

section \<open>Properties\<close>

subsection \<open>Auxiliary facts\<close>

lemma on_submit_file:
  "image_input_files w = f # fs \<Longrightarrow>
   on_submit w =
     (fetch ''/analyze'' ''POST'' [(''image'', f)]
        (w\<lparr>default_prevented := True, status_text := analyzing,
           ingredients_section_classes := class_add ''hidden'' (ingredients_section_classes w),
           recipes_section_classes := class_add ''hidden'' (recipes_section_classes w)\<rparr>),
      Awaiting)"
  by (simp add: on_submit_def form_data_append_def Let_def)

lemma on_submit_no_file:
  "image_input_files w = [] \<Longrightarrow> on_submit w = (w\<lparr>default_prevented := True\<rparr>, Returned)"
  by (simp add: on_submit_def)

lemma is_hidden_class_add: "is_hidden (class_add ''hidden'' cs)"
  by (simp add: is_hidden_def class_add_def)

lemma not_hidden_class_remove: "\<not> is_hidden (class_remove ''hidden'' cs)"
  by (simp add: is_hidden_def class_remove_def)

lemma pill_VStr: \<open>pill ops (VStr s) = Inr (''<span class="pill">'' @ s @ ''</span>'')\<close>
  by (simp add: pill_def)

lemma list_item_VStr: "list_item ops (VStr s) = Inr (''<li>'' @ s @ ''</li>'')"
  by (simp add: list_item_def)

lemma map_throwing_pill:
  \<open>map_throwing (pill ops) (map VStr ss) =
     Inr (map (\<lambda>s. ''<span class="pill">'' @ s @ ''</span>'') ss)\<close>
  by (induction ss) (simp_all add: pill_VStr)

lemma map_throwing_list_item:
  "map_throwing (list_item ops) (map VStr ss) = Inr (map (\<lambda>s. ''<li>'' @ s @ ''</li>'') ss)"
  by (induction ss) (simp_all add: list_item_VStr)

lemma renderRecipe_shaped:
  "recipe_shaped v r \<Longrightarrow> renderRecipe ops v = Inr (recipe_card r)"
  by (simp add: recipe_shaped_def renderRecipe_def member_string_def member_items_def
      map_throwing_list_item join_empty_def card_text_def recipe_card_def)

lemma map_throwing_renderRecipe:
  "list_all2 recipe_shaped vs rs \<Longrightarrow>
   map_throwing (renderRecipe ops) vs = Inr (map recipe_card rs)"
  by (induction vs rs rule: list_all2_induct) (simp_all add: renderRecipe_shaped)

lemma render_ingredients_other:
  "requests (fst (render_ingredients ops v w)) = requests w"
  "status_text (fst (render_ingredients ops v w)) = status_text w"
  "recipes_section_classes (fst (render_ingredients ops v w)) = recipes_section_classes w"
  "recipes_list_html (fst (render_ingredients ops v w)) = recipes_list_html w"
  by (simp_all add: render_ingredients_def Let_def split: sum.split bool.split)

lemma render_recipes_other:
  "requests (fst (render_recipes ops v w)) = requests w"
  "status_text (fst (render_recipes ops v w)) = status_text w"
  "ingredients_section_classes (fst (render_recipes ops v w)) = ingredients_section_classes w"
  "ingredients_list_html (fst (render_recipes ops v w)) = ingredients_list_html w"
  by (simp_all add: render_recipes_def Let_def split: sum.split bool.split)

lemma render_ingredients_strings:
  \<open>render_ingredients ops (VArr (map VStr ings)) w =
     (if ings = [] then (w, None)
      else (w\<lparr>ingredients_section_classes :=
                 class_remove ''hidden'' (ingredients_section_classes w),
               ingredients_list_html :=
                 concat (map (\<lambda>i. ''<span class="pill">'' @ i @ ''</span>'') ings)\<rparr>, None))\<close>
  by (simp add: render_ingredients_def map_throwing_pill join_empty_def)

lemma render_recipes_shaped:
  "list_all2 recipe_shaped vs rs \<Longrightarrow>
   render_recipes ops (VArr vs) w =
     (if rs = [] then (w, None)
      else (w\<lparr>recipes_section_classes := class_remove ''hidden'' (recipes_section_classes w),
               recipes_list_html := concat (map recipe_card rs)\<rparr>, None))"
proof -
  assume sh: "list_all2 recipe_shaped vs rs"
  then have "(vs = []) = (rs = [])" by (auto simp: list_all2_conv_all_nth)
  then show ?thesis
    by (simp add: render_recipes_def map_throwing_renderRecipe [OF sh] join_empty_def)
qed

lemma render_split:
  "get_member data ''ingredients'' = Inr iv \<Longrightarrow> get_member data ''recipes'' = Inr rv \<Longrightarrow>
   render ops data w =
     (case render_ingredients ops iv w of
        (w1, Some e) \<Rightarrow> (w1, Threw e)
      | (w1, None) \<Rightarrow>
          (case render_recipes ops rv w1 of
             (w2, Some e) \<Rightarrow> (w2, Threw e)
           | (w2, None) \<Rightarrow> (w2\<lparr>status_text := []\<rparr>, Returned)))"
  by (simp add: render_def)

lemma get_member_both:
  "get_member data k = Inr v \<Longrightarrow> \<exists>v'. get_member data k' = Inr v'"
  by (cases data) simp_all

lemma render_requests: "requests (fst (render ops data w)) = requests w"
proof (cases "get_member data ''ingredients''")
  case (Inl e)
  then show ?thesis by (simp add: render_def)
next
  case (Inr iv)
  then obtain rv where rv: "get_member data ''recipes'' = Inr rv"
    using get_member_both by blast
  obtain w1 r1 where s1: "render_ingredients ops iv w = (w1, r1)" by fastforce
  obtain w2 r2 where s2: "render_recipes ops rv w1 = (w2, r2)" by fastforce
  have "requests w1 = requests w" using render_ingredients_other(1) [of ops iv w] s1 by simp
  moreover have "requests w2 = requests w1" using render_recipes_other(1) [of ops rv w1] s2 by simp
  ultimately show ?thesis
    by (simp add: render_split [OF Inr rv] s1 s2 split: option.split)
qed

lemma submit_cycle_file:
  "image_input_files w = f # fs \<Longrightarrow>
   submit_cycle ops net w = on_settled ops (await_json net) (fst (on_submit w))"
  by (simp add: submit_cycle_def on_submit_file)

lemma render_ingredients_empty: "render_ingredients ops (VArr []) w = (w, None)"
  by (simp add: render_ingredients_def)

lemma render_recipes_empty: "render_recipes ops (VArr []) w = (w, None)"
  by (simp add: render_recipes_def)

lemma render_ingredients_fields:
  assumes "get_member data ''ingredients'' = Inr iv"
  shows "ingredients_section_classes (fst (render ops data w)) =
           ingredients_section_classes (fst (render_ingredients ops iv w))"
    and "ingredients_list_html (fst (render ops data w)) =
           ingredients_list_html (fst (render_ingredients ops iv w))"
proof -
  obtain rv where rv: "get_member data ''recipes'' = Inr rv"
    using assms get_member_both by blast
  obtain w1 r1 where s1: "render_ingredients ops iv w = (w1, r1)" by fastforce
  obtain w2 r2 where s2: "render_recipes ops rv w1 = (w2, r2)" by fastforce
  have k: "ingredients_section_classes w2 = ingredients_section_classes w1"
    "ingredients_list_html w2 = ingredients_list_html w1"
    using render_recipes_other(3,4) [of ops rv w1] s2 by simp_all
  show "ingredients_section_classes (fst (render ops data w)) =
           ingredients_section_classes (fst (render_ingredients ops iv w))"
    by (simp add: render_split [OF assms rv] s1 s2 k split: option.split)
  show "ingredients_list_html (fst (render ops data w)) =
           ingredients_list_html (fst (render_ingredients ops iv w))"
    by (simp add: render_split [OF assms rv] s1 s2 k split: option.split)
qed

lemma render_no_recipes_fields:
  assumes "get_member data ''recipes'' = Inr (VArr [])"
  shows "recipes_section_classes (fst (render ops data w)) = recipes_section_classes w"
    and "recipes_list_html (fst (render ops data w)) = recipes_list_html w"
proof -
  obtain iv where iv: "get_member data ''ingredients'' = Inr iv"
    using assms get_member_both by blast
  obtain w1 r1 where s1: "render_ingredients ops iv w = (w1, r1)" by fastforce
  have k: "recipes_section_classes w1 = recipes_section_classes w"
    "recipes_list_html w1 = recipes_list_html w"
    using render_ingredients_other(3,4) [of ops iv w] s1 by simp_all
  show "recipes_section_classes (fst (render ops data w)) = recipes_section_classes w"
    by (simp add: render_split [OF iv assms] s1 k render_recipes_empty split: option.split)
  show "recipes_list_html (fst (render ops data w)) = recipes_list_html w"
    by (simp add: render_split [OF iv assms] s1 k render_recipes_empty split: option.split)
qed

lemma on_submit_fields:
  assumes "image_input_files w = f # fs"
  shows "status_text (fst (on_submit w)) = analyzing"
    and "is_hidden (ingredients_section_classes (fst (on_submit w)))"
    and "is_hidden (recipes_section_classes (fst (on_submit w)))"
    and "ingredients_list_html (fst (on_submit w)) = ingredients_list_html w"
    and "recipes_list_html (fst (on_submit w)) = recipes_list_html w"
  by (simp_all add: on_submit_file [OF assms] fetch_def is_hidden_class_add)

lemma submit_cycle_answer:
  "image_input_files w = f # fs \<Longrightarrow>
   submit_cycle ops (Fulfilled \<lparr>status_code = c, json = Fulfilled data\<rparr>) w =
     render ops data (fst (on_submit w))"
  by (simp add: submit_cycle_file await_json_def on_settled_def)

lemma render_contract:
  assumes gi: "get_member data ''ingredients'' = Inr (VArr (map VStr ings))"
    and gr: "get_member data ''recipes'' = Inr (VArr vs)"
    and sh: "list_all2 recipe_shaped vs rs"
  shows "snd (render ops data w) = Returned"
    and "status_text (fst (render ops data w)) = []"
    and "recipes_section_classes (fst (render ops data w)) =
           (if rs = [] then recipes_section_classes w
            else class_remove ''hidden'' (recipes_section_classes w))"
    and "recipes_list_html (fst (render ops data w)) =
           (if rs = [] then recipes_list_html w else concat (map recipe_card rs))"
  by (simp_all add: render_split [OF gi gr] render_ingredients_strings
      render_recipes_shaped [OF sh])

lemma render_returned_status:
  "snd (render ops data w) = Returned \<Longrightarrow> status_text (fst (render ops data w)) = []"
  by (auto simp: render_def split: sum.splits prod.splits option.splits)

lemma fresh_page_file: "image_input_files fresh_page = photo # []"
  by (simp add: fresh_page_def)

lemma used_page_file: "image_input_files used_page = photo # []"
  by (simp add: used_page_def)

lemma pancakes_shaped: "recipe_shaped pancakes_value pancakes"
  by (simp add: recipe_shaped_def pancakes_value_def pancakes_def)

lemma pancakes_answer_members:
  "get_member pancakes_answer ''ingredients'' = Inr (VArr (map VStr []))"
  "get_member pancakes_answer ''recipes'' = Inr (VArr [pancakes_value])"
  by (simp_all add: pancakes_answer_def)

lemma eggs_answer_members:
  "get_member eggs_answer ''ingredients'' = Inr (VArr (map VStr [''egg'', ''flour'']))"
  "get_member eggs_answer ''recipes'' = Inr (VArr [])"
  by (simp_all add: eggs_answer_def)

subsection \<open>The handler up to the request\<close>

text \<open>
  Claim C1. When a file is selected, the handler runs up to a call of \<open>fetch\<close> and
  suspends there. The call is made in a world \<open>w0\<close> in which both sections are hidden
  and no request of this cycle has been issued yet; it issues the request
  \<open>POST /analyze\<close> whose body is the form data with the single entry \<open>image\<close>
  holding the first selected file. Whatever the network answers, the rest of the cycle
  issues no further request, so the cycle issues exactly that one.
\<close>

theorem C1_submit_hides_then_posts_once:
  assumes "image_input_files w = f # fs"
  shows "\<exists>w0. on_submit w = (fetch ''/analyze'' ''POST'' [(''image'', f)] w0, Awaiting) \<and>
           is_hidden (ingredients_section_classes w0) \<and>
           is_hidden (recipes_section_classes w0) \<and>
           requests w0 = requests w \<and>
           requests (fst (on_submit w)) =
             requests w @ [\<lparr>url = ''/analyze'', http_method = ''POST'', body = [(''image'', f)]\<rparr>] \<and>
           requests (fst (submit_cycle ops net w)) = requests (fst (on_submit w))"
proof -
  let ?w0 = "w\<lparr>default_prevented := True, status_text := analyzing,
           ingredients_section_classes := class_add ''hidden'' (ingredients_section_classes w),
           recipes_section_classes := class_add ''hidden'' (recipes_section_classes w)\<rparr>"
  have s: "on_submit w = (fetch ''/analyze'' ''POST'' [(''image'', f)] ?w0, Awaiting)"
    using assms by (rule on_submit_file)
  have h: "is_hidden (ingredients_section_classes ?w0)" "is_hidden (recipes_section_classes ?w0)"
    by (simp_all add: is_hidden_class_add)
  have r0: "requests ?w0 = requests w" by simp
  have r1: "requests (fst (on_submit w)) =
      requests w @ [\<lparr>url = ''/analyze'', http_method = ''POST'', body = [(''image'', f)]\<rparr>]"
    by (simp add: s fetch_def)
  have r2: "requests (fst (submit_cycle ops net w)) = requests (fst (on_submit w))"
    by (cases "await_json net") (simp_all add: submit_cycle_file [OF assms] on_settled_def render_requests)
  from s h r0 r1 r2 show ?thesis by blast
qed

theorem C1_submit_hides_then_posts_once_witness:
  "image_input_files fresh_page = photo # [] \<and>
   requests (fst (submit_cycle nat_ops (answer VNull) fresh_page)) =
     [\<lparr>url = ''/analyze'', http_method = ''POST'', body = [(''image'', photo)]\<rparr>]"
proof -
  have h: "image_input_files fresh_page = photo # []" by (simp add: fresh_page_def)
  have r: "requests fresh_page = []" by (simp add: fresh_page_def)
  show ?thesis using h r C1_submit_hides_then_posts_once [OF h, of nat_ops "answer VNull"] by auto
qed

text \<open>
  Claim C5. When no file is selected, a submission cancels the browser's own form
  submission and does nothing else: the handler returns at once, no request is issued
  and the status text (empty on a fresh page) is what it was.
\<close>

theorem C5_no_file_is_noop:
  assumes "image_input_files w = []"
  shows "submit_cycle ops net w = (w\<lparr>default_prevented := True\<rparr>, Returned) \<and>
         requests (fst (submit_cycle ops net w)) = requests w \<and>
         status_text (fst (submit_cycle ops net w)) = status_text w"
  using assms by (simp add: submit_cycle_def on_submit_no_file)

theorem C5_no_file_is_noop_witness:
  "image_input_files empty_page = [] \<and>
   requests (fst (submit_cycle nat_ops (answer VNull) empty_page)) = [] \<and>
   status_text (fst (submit_cycle nat_ops (answer VNull) empty_page)) = []"
proof -
  have h: "image_input_files empty_page = []" by (simp add: empty_page_def)
  have r: "requests empty_page = []" "status_text empty_page = []"
    by (simp_all add: empty_page_def fresh_page_def)
  show ?thesis using h r C5_no_file_is_noop [OF h, of nat_ops "answer VNull"] by simp
qed

subsection \<open>Failures of the network and of parsing\<close>

text \<open>
  Claim C4. When the request is rejected, or the answer arrives and its body does not
  parse as JSON, the handler ends with that error uncaught. The page stays as the
  handler left it before the request: the status reads \<open>Analyzing...\<close> (with the
  ellipsis character), both sections are hidden, and both list containers hold what
  they held before the submission.
\<close>

theorem C4_failure_is_not_caught:
  assumes "image_input_files w = f # fs"
    and "net = Rejected e \<or> net = Fulfilled \<lparr>status_code = c, json = Rejected e\<rparr>"
  shows "submit_cycle ops net w = (fst (on_submit w), Threw e) \<and>
         status_text (fst (submit_cycle ops net w)) = analyzing \<and>
         is_hidden (ingredients_section_classes (fst (submit_cycle ops net w))) \<and>
         is_hidden (recipes_section_classes (fst (submit_cycle ops net w))) \<and>
         ingredients_list_html (fst (submit_cycle ops net w)) = ingredients_list_html w \<and>
         recipes_list_html (fst (submit_cycle ops net w)) = recipes_list_html w"
proof -
  from assms(2) have a: "await_json net = Rejected e" by (auto simp: await_json_def)
  have c: "submit_cycle ops net w = (fst (on_submit w), Threw e)"
    by (simp add: submit_cycle_file [OF assms(1)] a on_settled_def)
  show ?thesis
    by (simp add: c on_submit_file [OF assms(1)] fetch_def is_hidden_class_add)
qed

theorem C4_failure_is_not_caught_witness:
  "snd (submit_cycle nat_ops (Rejected NetworkError) fresh_page) = Threw NetworkError \<and>
   status_text (fst (submit_cycle nat_ops (Rejected NetworkError) fresh_page)) = analyzing \<and>
   snd (submit_cycle nat_ops (Fulfilled \<lparr>status_code = 502, json = Rejected SyntaxError\<rparr>)
     fresh_page) = Threw SyntaxError \<and>
   status_text (fst (submit_cycle nat_ops
     (Fulfilled \<lparr>status_code = 502, json = Rejected SyntaxError\<rparr>) fresh_page)) = analyzing"
proof -
  have n: "Rejected NetworkError = Rejected NetworkError \<or>
      (Rejected NetworkError :: nat response settled) =
        Fulfilled \<lparr>status_code = 0, json = Rejected NetworkError\<rparr>"
    by simp
  have s: "Fulfilled \<lparr>status_code = 502, json = Rejected SyntaxError\<rparr> = Rejected SyntaxError \<or>
      (Fulfilled \<lparr>status_code = 502, json = Rejected SyntaxError\<rparr> :: nat response settled) =
        Fulfilled \<lparr>status_code = 502, json = Rejected SyntaxError\<rparr>"
    by simp
  note a = C4_failure_is_not_caught [OF fresh_page_file n, of nat_ops]
  note b = C4_failure_is_not_caught [OF fresh_page_file s, of nat_ops]
  from a have "snd (submit_cycle nat_ops (Rejected NetworkError) fresh_page) = Threw NetworkError"
    by simp
  moreover from a have
    "status_text (fst (submit_cycle nat_ops (Rejected NetworkError) fresh_page)) = analyzing"
    by blast
  moreover from b have
    "snd (submit_cycle nat_ops (Fulfilled \<lparr>status_code = 502, json = Rejected SyntaxError\<rparr>)
       fresh_page) = Threw SyntaxError"
    by simp
  moreover from b have
    "status_text (fst (submit_cycle nat_ops
       (Fulfilled \<lparr>status_code = 502, json = Rejected SyntaxError\<rparr>) fresh_page)) = analyzing"
    by blast
  ultimately show ?thesis by blast
qed

subsection \<open>Rendering a well-shaped answer\<close>

text \<open>
  Claim C2. Let the parsed answer have an \<open>ingredients\<close> property that is an array of
  strings (whatever else it holds). When the array is empty, rendering leaves the class
  list of the ingredients section as it found it, so that the section, hidden by the
  handler before the request, is still hidden at the end of the cycle. When the array
  is not empty, the section is made visible and the markup assigned to the ingredients
  list is the concatenation, with nothing in between, of one badge
  \<open><span class="pill">...</span>\<close> per string, in the order of the array, with the
  string itself as the content of the badge. The first three facts are about rendering
  in any world \<open>w1\<close>, the others about a whole cycle started with a file selected.
\<close>

theorem C2_ingredients_section:
  assumes "get_member data ''ingredients'' = Inr (VArr (map VStr ings))"
    and "image_input_files w = f # fs"
  shows \<open>(ings = [] \<longrightarrow>
            ingredients_section_classes (fst (render ops data w1)) =
              ingredients_section_classes w1 \<and>
            is_hidden (ingredients_section_classes
              (fst (submit_cycle ops (Fulfilled \<lparr>status_code = c, json = Fulfilled data\<rparr>) w)))) \<and>
         (ings \<noteq> [] \<longrightarrow>
            \<not> is_hidden (ingredients_section_classes (fst (render ops data w1))) \<and>
            ingredients_list_html (fst (render ops data w1)) =
              concat (map (\<lambda>i. ''<span class="pill">'' @ i @ ''</span>'') ings) \<and>
            \<not> is_hidden (ingredients_section_classes
              (fst (submit_cycle ops (Fulfilled \<lparr>status_code = c, json = Fulfilled data\<rparr>) w))) \<and>
            ingredients_list_html
              (fst (submit_cycle ops (Fulfilled \<lparr>status_code = c, json = Fulfilled data\<rparr>) w)) =
              concat (map (\<lambda>i. ''<span class="pill">'' @ i @ ''</span>'') ings))\<close>
  by (simp add: submit_cycle_answer [OF assms(2)] render_ingredients_fields [OF assms(1)]
      render_ingredients_strings render_ingredients_empty not_hidden_class_remove
      on_submit_fields(2) [OF assms(2)])

theorem C2_ingredients_section_witness:
  \<open>is_hidden (ingredients_section_classes (fst (submit_cycle nat_ops (answer pancakes_answer) fresh_page))) \<and>
   \<not> is_hidden (ingredients_section_classes (fst (submit_cycle nat_ops (answer eggs_answer) fresh_page))) \<and>
   ingredients_list_html (fst (submit_cycle nat_ops (answer eggs_answer) fresh_page)) =
     ''<span class="pill">egg</span><span class="pill">flour</span>''\<close>
proof -
  have f: "image_input_files fresh_page = photo # []" by (simp add: fresh_page_def)
  have e: "get_member pancakes_answer ''ingredients'' = Inr (VArr (map VStr []))"
    by (simp add: pancakes_answer_def)
  have n: "get_member eggs_answer ''ingredients'' = Inr (VArr (map VStr [''egg'', ''flour'']))"
    by (simp add: eggs_answer_def)
  show ?thesis
    using C2_ingredients_section [OF e f, of nat_ops fresh_page 200]
      C2_ingredients_section [OF n f, of nat_ops fresh_page 200]
    by (simp add: answer_def)
qed

text \<open>
  Claim C3. Let the parsed answer follow the response contract: \<open>ingredients\<close> an array
  of strings, \<open>recipes\<close> an array of values \<open>vs\<close> shaped as the recipe records \<open>rs\<close>.
  When there is no recipe, rendering leaves the class list of the recipes section as it
  found it, so that the section is still hidden at the end of the cycle. Otherwise the
  section is made visible and the markup assigned to the recipes list is the
  concatenation of one card per record, in order, where the card of a record
  (\<open>recipe_card\<close>) carries its title in the heading, its description in the paragraph,
  one list item per ingredient used in the unordered list and one list item per step in
  the ordered list, both in the order of the record.
\<close>

theorem C3_recipes_section:
  assumes "get_member data ''ingredients'' = Inr (VArr (map VStr ings))"
    and "get_member data ''recipes'' = Inr (VArr vs)"
    and "list_all2 recipe_shaped vs rs"
    and "image_input_files w = f # fs"
  shows "(rs = [] \<longrightarrow>
            recipes_section_classes (fst (render ops data w1)) = recipes_section_classes w1 \<and>
            is_hidden (recipes_section_classes
              (fst (submit_cycle ops (Fulfilled \<lparr>status_code = c, json = Fulfilled data\<rparr>) w)))) \<and>
         (rs \<noteq> [] \<longrightarrow>
            \<not> is_hidden (recipes_section_classes (fst (render ops data w1))) \<and>
            recipes_list_html (fst (render ops data w1)) = concat (map recipe_card rs) \<and>
            \<not> is_hidden (recipes_section_classes
              (fst (submit_cycle ops (Fulfilled \<lparr>status_code = c, json = Fulfilled data\<rparr>) w))) \<and>
            recipes_list_html
              (fst (submit_cycle ops (Fulfilled \<lparr>status_code = c, json = Fulfilled data\<rparr>) w)) =
              concat (map recipe_card rs))"
  by (simp add: submit_cycle_answer [OF assms(4)] render_contract(3,4) [OF assms(1,2,3)]
      not_hidden_class_remove on_submit_fields(3) [OF assms(4)])

theorem C3_recipes_section_witness:
  "is_hidden (recipes_section_classes
     (fst (submit_cycle nat_ops (answer eggs_answer) fresh_page))) \<and>
   \<not> is_hidden (recipes_section_classes
     (fst (submit_cycle nat_ops (answer pancakes_answer) fresh_page))) \<and>
   recipes_list_html (fst (submit_cycle nat_ops (answer pancakes_answer) fresh_page)) =
     recipe_card pancakes"
proof -
  have none: "list_all2 recipe_shaped ([] :: nat jsval list) []" by simp
  have one: "list_all2 recipe_shaped [pancakes_value] [pancakes]"
    by (simp add: pancakes_shaped)
  show ?thesis
    using C3_recipes_section [OF eggs_answer_members none fresh_page_file,
        of nat_ops fresh_page 200]
      C3_recipes_section [OF pancakes_answer_members one fresh_page_file,
        of nat_ops fresh_page 200]
    by (simp add: answer_def)
qed

text \<open>
  Claim C6. For a parsed answer that follows the response contract, rendering returns
  normally and leaves the status text empty, whether the two arrays are empty or not;
  so does the whole cycle. More generally, for any parsed value \<open>any\<close>: whenever
  rendering returns normally, the status text is empty.
\<close>

theorem C6_status_cleared:
  assumes "get_member data ''ingredients'' = Inr (VArr (map VStr ings))"
    and "get_member data ''recipes'' = Inr (VArr vs)"
    and "list_all2 recipe_shaped vs rs"
    and "image_input_files w = f # fs"
  shows "snd (render ops data w1) = Returned \<and>
         status_text (fst (render ops data w1)) = [] \<and>
         snd (submit_cycle ops (Fulfilled \<lparr>status_code = c, json = Fulfilled data\<rparr>) w) = Returned \<and>
         status_text (fst (submit_cycle ops (Fulfilled \<lparr>status_code = c, json = Fulfilled data\<rparr>) w)) = [] \<and>
         (snd (render ops any w1) = Returned \<longrightarrow> status_text (fst (render ops any w1)) = [])"
  by (simp add: submit_cycle_answer [OF assms(4)] render_contract(1,2) [OF assms(1,2,3)]
      render_returned_status)

theorem C6_status_cleared_witness:
  "snd (render nat_ops eggs_answer fresh_page) = Returned \<and>
   status_text (fst (render nat_ops eggs_answer fresh_page)) = [] \<and>
   snd (submit_cycle nat_ops (answer eggs_answer) fresh_page) = Returned \<and>
   status_text (fst (submit_cycle nat_ops (answer eggs_answer) fresh_page)) = []"
proof -
  have none: "list_all2 recipe_shaped ([] :: nat jsval list) []" by simp
  show ?thesis
    using C6_status_cleared [OF eggs_answer_members none fresh_page_file,
        of nat_ops fresh_page 200 eggs_answer]
    by (simp add: answer_def)
qed

text \<open>
  Claim C7. An ingredient string is put into the badge as it is, whatever characters it
  holds: the badge of the string \<open>s\<close> is the opening tag, \<open>s\<close> unchanged and the
  closing tag, and when \<open>s\<close> is one of the ingredients of the answer, the markup
  assigned to the ingredients list contains that badge.
\<close>

theorem C7_ingredient_not_escaped:
  assumes "get_member data ''ingredients'' = Inr (VArr (map VStr ings))"
    and "s \<in> set ings"
  shows \<open>pill ops (VStr s) = Inr (''<span class="pill">'' @ s @ ''</span>'') \<and>
         (\<exists>before after.
            ingredients_list_html (fst (render ops data w)) =
              before @ ''<span class="pill">'' @ s @ ''</span>'' @ after)\<close>
proof -
  from assms(2) obtain xs ys where sp: "ings = xs @ s # ys" by (meson split_list)
  let ?p = \<open>\<lambda>i. ''<span class="pill">'' @ i @ ''</span>''\<close>
  have ne: "ings \<noteq> []" using assms(2) by auto
  have "ingredients_list_html (fst (render ops data w)) = concat (map ?p ings)"
    by (simp add: render_ingredients_fields(2) [OF assms(1)] render_ingredients_strings ne)
  also have "\<dots> = concat (map ?p xs) @ ?p s @ concat (map ?p ys)"
    by (simp add: sp)
  finally have "ingredients_list_html (fst (render ops data w)) =
      concat (map ?p xs) @ ''<span class=\"pill\">'' @ s @ ''</span>'' @ concat (map ?p ys)"
    by simp
  then have "\<exists>before after. ingredients_list_html (fst (render ops data w)) =
              before @ ''<span class=\"pill\">'' @ s @ ''</span>'' @ after"
    by blast
  then show ?thesis by (simp add: pill_VStr)
qed

theorem C7_ingredient_not_escaped_witness:
  \<open>\<exists>before after.
     ingredients_list_html (fst (render nat_ops markup_answer fresh_page)) =
       before @ ''<span class="pill"><b>egg</b></span>'' @ after\<close>
proof -
  have m: "get_member markup_answer ''ingredients'' = Inr (VArr (map VStr [''<b>egg</b>'']))"
    by (simp add: markup_answer_def)
  have i: "''<b>egg</b>'' \<in> set [''<b>egg</b>'']" by simp
  show ?thesis
    using C7_ingredient_not_escaped [OF m i, of nat_ops fresh_page] by simp
qed

text \<open>
  Claim C8. \<open>renderRecipe\<close> takes no world and returns none: it is a function of its
  argument. On a value shaped as the recipe record \<open>r\<close> it returns markup, never an
  error, and the markup is the card of \<open>r\<close>: two applications to values shaped as the
  same record give the same text, character for character, whatever other properties
  the values have, in whatever order, and whatever the runtime's number conversions are.
\<close>

theorem C8_renderRecipe_deterministic:
  assumes "recipe_shaped v r" and "recipe_shaped v' r"
  shows "renderRecipe ops v = Inr (recipe_card r) \<and> renderRecipe ops' v' = renderRecipe ops v"
  by (simp add: renderRecipe_shaped [OF assms(1)] renderRecipe_shaped [OF assms(2)])

theorem C8_renderRecipe_deterministic_witness:
  "renderRecipe nat_ops pancakes_value = Inr (recipe_card pancakes) \<and>
   renderRecipe nat_ops pancakes_value_reordered = renderRecipe nat_ops pancakes_value"
proof -
  have r: "recipe_shaped pancakes_value_reordered pancakes"
    by (simp add: recipe_shaped_def pancakes_value_reordered_def pancakes_def)
  show ?thesis
    using C8_renderRecipe_deterministic [OF pancakes_shaped r, of nat_ops nat_ops] .
qed

subsection \<open>What rendering leaves behind\<close>

text \<open>
  Claim C9. When the \<open>ingredients\<close> property of the parsed answer is the empty array,
  rendering does not write the ingredients list: it holds what it held, and at the end
  of a cycle it holds what it held before the submission, in a section that is hidden.
  The same holds for the \<open>recipes\<close> property and the recipes list.
\<close>

theorem C9_empty_leaves_container:
  assumes "image_input_files w = f # fs"
  shows "(get_member data ''ingredients'' = Inr (VArr []) \<longrightarrow>
            ingredients_list_html (fst (render ops data w1)) = ingredients_list_html w1 \<and>
            ingredients_list_html
              (fst (submit_cycle ops (Fulfilled \<lparr>status_code = c, json = Fulfilled data\<rparr>) w)) =
              ingredients_list_html w \<and>
            is_hidden (ingredients_section_classes
              (fst (submit_cycle ops (Fulfilled \<lparr>status_code = c, json = Fulfilled data\<rparr>) w)))) \<and>
         (get_member data ''recipes'' = Inr (VArr []) \<longrightarrow>
            recipes_list_html (fst (render ops data w1)) = recipes_list_html w1 \<and>
            recipes_list_html
              (fst (submit_cycle ops (Fulfilled \<lparr>status_code = c, json = Fulfilled data\<rparr>) w)) =
              recipes_list_html w \<and>
            is_hidden (recipes_section_classes
              (fst (submit_cycle ops (Fulfilled \<lparr>status_code = c, json = Fulfilled data\<rparr>) w))))"
proof (intro conjI impI)
  assume i: "get_member data ''ingredients'' = Inr (VArr [])"
  show "ingredients_list_html (fst (render ops data w1)) = ingredients_list_html w1"
    by (simp add: render_ingredients_fields(2) [OF i] render_ingredients_empty)
  show "ingredients_list_html
      (fst (submit_cycle ops (Fulfilled \<lparr>status_code = c, json = Fulfilled data\<rparr>) w)) =
      ingredients_list_html w"
    by (simp add: submit_cycle_answer [OF assms] render_ingredients_fields(2) [OF i]
        render_ingredients_empty on_submit_fields(4) [OF assms])
  show "is_hidden (ingredients_section_classes
      (fst (submit_cycle ops (Fulfilled \<lparr>status_code = c, json = Fulfilled data\<rparr>) w)))"
    by (simp add: submit_cycle_answer [OF assms] render_ingredients_fields(1) [OF i]
        render_ingredients_empty on_submit_fields(2) [OF assms])
next
  assume r: "get_member data ''recipes'' = Inr (VArr [])"
  show "recipes_list_html (fst (render ops data w1)) = recipes_list_html w1"
    by (rule render_no_recipes_fields(2) [OF r])
  show "recipes_list_html
      (fst (submit_cycle ops (Fulfilled \<lparr>status_code = c, json = Fulfilled data\<rparr>) w)) =
      recipes_list_html w"
    by (simp add: submit_cycle_answer [OF assms] render_no_recipes_fields(2) [OF r]
        on_submit_fields(5) [OF assms])
  show "is_hidden (recipes_section_classes
      (fst (submit_cycle ops (Fulfilled \<lparr>status_code = c, json = Fulfilled data\<rparr>) w)))"
    by (simp add: submit_cycle_answer [OF assms] render_no_recipes_fields(1) [OF r]
        on_submit_fields(3) [OF assms])
qed

theorem C9_empty_leaves_container_witness:
  \<open>ingredients_list_html (fst (submit_cycle nat_ops (answer pancakes_answer) used_page)) =
     ''<span class="pill">milk</span>'' \<and>
   is_hidden (ingredients_section_classes
     (fst (submit_cycle nat_ops (answer pancakes_answer) used_page))) \<and>
   recipes_list_html (fst (submit_cycle nat_ops (answer eggs_answer) used_page)) =
     recipe_card pancakes \<and>
   is_hidden (recipes_section_classes
     (fst (submit_cycle nat_ops (answer eggs_answer) used_page)))\<close>
proof -
  have i: "get_member pancakes_answer ''ingredients'' = Inr (VArr [])"
    by (simp add: pancakes_answer_def)
  have u: \<open>ingredients_list_html used_page = ''<span class="pill">milk</span>''\<close>
    "recipes_list_html used_page = recipe_card pancakes"
    by (simp_all add: used_page_def)
  show ?thesis
    using C9_empty_leaves_container [OF used_page_file, of pancakes_answer nat_ops used_page 200]
      C9_empty_leaves_container [OF used_page_file, of eggs_answer nat_ops used_page 200]
      i eggs_answer_members(2) u
    by (simp add: answer_def)
qed

text \<open>
  Claim C10. Let the parsed answer be an object with a non-empty array of strings as
  \<open>ingredients\<close> and without a \<open>recipes\<close> property. The cycle ends with a TypeError,
  thrown when the length of the missing property is read, after the ingredients have
  been rendered: the ingredients section is visible and its list holds the badges, the
  recipes section is hidden and its list untouched, and the status text still reads
  \<open>Analyzing...\<close> (with the ellipsis character).
\<close>

theorem C10_missing_recipes_not_atomic:
  assumes "map_of ps ''ingredients'' = Some (VArr (map VStr ings))"
    and "ings \<noteq> []"
    and "map_of ps ''recipes'' = None"
    and "image_input_files w = f # fs"
  shows \<open>snd (submit_cycle ops (Fulfilled \<lparr>status_code = c, json = Fulfilled (VObj ps)\<rparr>) w) =
           Threw TypeError \<and>
         \<not> is_hidden (ingredients_section_classes
           (fst (submit_cycle ops (Fulfilled \<lparr>status_code = c, json = Fulfilled (VObj ps)\<rparr>) w))) \<and>
         ingredients_list_html
           (fst (submit_cycle ops (Fulfilled \<lparr>status_code = c, json = Fulfilled (VObj ps)\<rparr>) w)) =
           concat (map (\<lambda>i. ''<span class="pill">'' @ i @ ''</span>'') ings) \<and>
         is_hidden (recipes_section_classes
           (fst (submit_cycle ops (Fulfilled \<lparr>status_code = c, json = Fulfilled (VObj ps)\<rparr>) w))) \<and>
         recipes_list_html
           (fst (submit_cycle ops (Fulfilled \<lparr>status_code = c, json = Fulfilled (VObj ps)\<rparr>) w)) =
           recipes_list_html w \<and>
         status_text
           (fst (submit_cycle ops (Fulfilled \<lparr>status_code = c, json = Fulfilled (VObj ps)\<rparr>) w)) =
           analyzing\<close>
proof -
  have gi: "get_member (VObj ps) ''ingredients'' = Inr (VArr (map VStr ings))"
    by (simp add: assms(1))
  have gr: "get_member (VObj ps) ''recipes'' = Inr VUndef"
    by (simp add: assms(3))
  have t: "render_recipes ops VUndef w1 = (w1, Some TypeError)" for w1
    by (simp add: render_recipes_def)
  show ?thesis
    by (simp add: submit_cycle_answer [OF assms(4)] render_split [OF gi gr]
        render_ingredients_strings assms(2) t not_hidden_class_remove
        on_submit_fields [OF assms(4)])
qed

theorem C10_missing_recipes_not_atomic_witness:
  \<open>snd (submit_cycle nat_ops (answer no_recipes_answer) fresh_page) = Threw TypeError \<and>
   \<not> is_hidden (ingredients_section_classes
     (fst (submit_cycle nat_ops (answer no_recipes_answer) fresh_page))) \<and>
   ingredients_list_html (fst (submit_cycle nat_ops (answer no_recipes_answer) fresh_page)) =
     ''<span class="pill">egg</span>'' \<and>
   is_hidden (recipes_section_classes
     (fst (submit_cycle nat_ops (answer no_recipes_answer) fresh_page))) \<and>
   status_text (fst (submit_cycle nat_ops (answer no_recipes_answer) fresh_page)) = analyzing\<close>
proof -
  have i: "map_of [(''ingredients'', VArr [VStr ''egg''] :: nat jsval)] ''ingredients'' =
      Some (VArr (map VStr [''egg'']))" by simp
  have n: "[''egg''] \<noteq> []" by simp
  have r: "map_of [(''ingredients'', VArr [VStr ''egg''] :: nat jsval)] ''recipes'' = None"
    by simp
  show ?thesis
    using C10_missing_recipes_not_atomic [OF i n r fresh_page_file, of nat_ops 200]
    by (simp add: answer_def no_recipes_answer_def)
qed

end
